theory Spec2Isabelle
  imports Main "HOL-Library.AList"
begin

section \<open>Python values used by the renderer\<close>

text \<open>
  The exceptions the renderer can raise.  \<open>Exception\<close> carries the message of an
  explicit \<^verbatim>\<open>raise Exception(...)\<close>; the others are raised by the interpreter
  (an index out of range, an operation on a value of the wrong type).
\<close>

datatype error = Exception string | IndexError | TypeError | AttributeError

text \<open>Python's \<^verbatim>\<open>str()\<close> of an integer: decimal digits, with a sign when negative.\<close>

definition digit_char :: "nat \<Rightarrow> char" where
  "digit_char d = ''0123456789'' ! d"

fun str_nat :: "nat \<Rightarrow> string" where
  "str_nat n = (if n < 10 then [digit_char n] else str_nat (n div 10) @ [digit_char (n mod 10)])"

declare str_nat.simps [simp del]

definition str_int :: "int \<Rightarrow> string" where
  "str_int i = (if i < 0 then CHR ''-'' # str_nat (nat (- i)) else str_nat (nat i))"

text \<open>
  A pin or wire identifier is an integer or a text (\<^verbatim>\<open>Union[int, str]\<close>);
  \<open>str_ident\<close> is what \<^verbatim>\<open>str()\<close> and an f-string print for it.
\<close>

datatype ident = IntId int | StrId string

fun str_ident :: "ident \<Rightarrow> string" where
  "str_ident (IntId i) = str_int i"
| "str_ident (StrId s) = s"

section \<open>Arrow markers\<close>

text \<open>
  Modelled from the spec: the enumeration \<^verbatim>\<open>ArrowDirection\<close> is declared in
  \<^verbatim>\<open>wv_dataclasses\<close>; the spec gives its four values none, forward, back, both.
\<close>

datatype ArrowDirection = NONE | BACK | FORWARD | BOTH

text \<open>
  \<^verbatim>\<open>parse_arrow_str\<close> reads \<^verbatim>\<open>inp[0]\<close> and \<^verbatim>\<open>inp[-1]\<close>; both raise IndexError on the
  empty string, and the first one is evaluated first.
\<close>

definition index_first :: "string \<Rightarrow> error + char" where
  "index_first s = (case s of [] \<Rightarrow> Inl IndexError | c # _ \<Rightarrow> Inr c)"

definition index_last :: "string \<Rightarrow> error + char" where
  "index_last s = (if s = [] then Inl IndexError else Inr (last s))"

definition parse_arrow_str :: "string \<Rightarrow> error + ArrowDirection" where
  "parse_arrow_str inp =
     (case index_first inp of
        Inl e \<Rightarrow> Inl e
      | Inr c0 \<Rightarrow>
          if c0 = CHR ''<'' then
            (case index_last inp of
               Inl e \<Rightarrow> Inl e
             | Inr c1 \<Rightarrow> if c1 = CHR ''>'' then Inr BOTH else Inr BACK)
          else
            (case index_last inp of
               Inl e \<Rightarrow> Inl e
             | Inr c1 \<Rightarrow> if c1 = CHR ''>'' then Inr FORWARD else Inr NONE))"

section \<open>The markup tree\<close>

text \<open>
  Modelled from the spec: the classes \<^verbatim>\<open>Table\<close>, \<^verbatim>\<open>Tr\<close>, \<^verbatim>\<open>Td\<close> and \<^verbatim>\<open>Img\<close> are
  declared in \<^verbatim>\<open>wv_html\<close>.  The spec gives the tree: a Table has rows and attributes,
  a Tr has cells, a Td has a content (text, a Table, or none) and attributes.  The
  attributes are the keyword arguments the renderer passes; each is a field here, absent
  (\<open>None\<close>) until a keyword sets it, with the type of the values the renderer gives it.
  The field names are the attribute names in capitals.
\<close>

record attribs =
  ALIGN :: "string option"
  BALIGN :: "string option"
  BGCOLOR :: "string option"
  BORDER :: "int option"
  CELLBORDER :: "int option"
  CELLPADDING :: "int option"
  CELLSPACING :: "int option"
  COLSPAN :: "int option"
  FIXEDSIZE :: "string option"
  HEIGHT :: "int option"
  ID :: "string option"
  PORT :: "string option"
  SCALE :: "string option"
  SIDES :: "string option"
  SRC :: "string option"
  STYLE :: "string option"
  WIDTH :: "int option"

definition no_attribs :: attribs where
  "no_attribs =
     \<lparr>ALIGN = None, BALIGN = None, BGCOLOR = None, BORDER = None, CELLBORDER = None,
      CELLPADDING = None, CELLSPACING = None, COLSPAN = None, FIXEDSIZE = None,
      HEIGHT = None, ID = None, PORT = None, SCALE = None, SIDES = None, SRC = None,
      STYLE = None, WIDTH = None\<rparr>"

text \<open>
  The renderer builds a Table from one row or from a list of rows, and a Tr from one
  cell or from a list whose entries are cells or \<^verbatim>\<open>None\<close>; the tree keeps which.
  A Td carries, beside content and attributes, the two constructor flags
  \<^verbatim>\<open>flat\<close> and \<^verbatim>\<open>delete_if_empty\<close>.
\<close>

datatype content = CNone | CStr string | CInt int | CTable table | CImg attribs
and table = Table (tbl_contents: table_contents) (tbl_attribs: attribs)
and table_contents = OneRow tr | Rows "tr list"
and tr = Tr (tr_contents: tr_contents)
and tr_contents = OneCell td | Cells "td option list"
and td = Td (td_contents: content) (td_attribs: attribs) (td_flat: bool) (td_delete_if_empty: bool)

fun content_of_ident :: "ident \<Rightarrow> content" where
  "content_of_ident (IntId i) = CInt i"
| "content_of_ident (StrId s) = CStr s"

fun content_of_text :: "string option \<Rightarrow> content" where
  "content_of_text None = CNone"
| "content_of_text (Some s) = CStr s"

section \<open>The harness data model\<close>

text \<open>
  Modelled from the spec: the colour classes are declared in \<^verbatim>\<open>wv_colors\<close>.  A colour
  has sub-colours, each with an HTML colour code; \<open>color_str\<close> is the text \<^verbatim>\<open>str()\<close>
  gives for it.  The renderer takes the length of a colour (\<^verbatim>\<open>len(color)\<close> in
  \<^verbatim>\<open>color_minitable\<close>), here the number of its sub-colours, and a colour of length 0
  counts as no colour (the spec's colourless wire), as a missing one does.

  The property \<^verbatim>\<open>html_padded_list\<close> of a colour, which the wire stripe reads, is not
  modelled: the list of codes it returns is a parameter of \<^verbatim>\<open>gv_wire_cell\<close>.
\<close>

record SingleColor =
  html :: string

record MultiColor =
  colors :: "SingleColor list"
  color_str :: string

definition len_color :: "MultiColor \<Rightarrow> nat" where
  "len_color c = length (colors c)"

fun truthy_color :: "MultiColor option \<Rightarrow> bool" where
  "truthy_color None = False"
| "truthy_color (Some c) = (len_color c \<noteq> 0)"

text \<open>
  Modelled from the spec: pins and wires are declared in \<^verbatim>\<open>wv_dataclasses\<close>.  The
  records hold the fields the renderer reads; where two classes share a field name the
  record fields carry the class as a prefix.  A wire is a conductor or a shield
  (\<open>is_shield\<close> stands for the test \<^verbatim>\<open>isinstance(wire, ShieldClass)\<close>).  Indices are
  0-based.  A connector's pins and a cable's wires are dictionaries in insertion order, a
  connector's loops are a list of pairs of pins, and \<open>should_show_pin\<close> is its visibility
  predicate.
\<close>

record Pin =
  pin_id :: ident
  pin_index :: int
  pin_label :: "string option"
  pin_color :: "MultiColor option"

record Wire =
  wire_id :: ident
  wire_index :: int
  wire_label :: "string option"
  wire_color :: "MultiColor option"
  wire_bom_id :: "ident option"
  is_shield :: bool

text \<open>
  Modelled from the spec: components are declared in \<^verbatim>\<open>wv_dataclasses\<close>.  A component
  is a connector or a cable; both have the fields of \<open>Component\<close>.  The part-number info
  is only handed on to \<^verbatim>\<open>partnumbers_to_list\<close>, so its type is left open (\<open>'pn\<close>).
  The fields of an image carry the prefix \<open>img\<close>, and a component's colour, image and
  notes are \<open>comp_color\<close>, \<open>comp_image\<close> and \<open>comp_notes\<close>.  Fields that the renderer
  only tests for truth (\<open>shield\<close>, \<open>img_fixedsize\<close>) are the truth value; \<open>bom_qty_str\<close> is the text an f-string prints for the quantity;
  \<open>from_str\<close> and \<open>to_str\<close> are the texts \<^verbatim>\<open>str()\<close> gives for the two ends of a
  connection, when it has them.  The private \<^verbatim>\<open>_connections\<close> is \<open>connections\<close>.
\<close>

record Image =
  img_src :: string
  img_scale :: "string option"
  img_width :: "int option"
  img_height :: "int option"
  img_fixedsize :: bool
  img_caption :: "string option"
  img_bgcolor :: SingleColor

record AdditionalComponent =
  sub_bom_id :: "ident option"
  bom_qty_str :: string
  qty_unit :: "string option"
  description :: string

record Connection =
  from_str :: "string option"
  via_id :: ident
  to_str :: "string option"

record 'pn Component =
  designator :: string
  show_name :: bool
  bgcolor_title :: SingleColor
  partnumbers :: 'pn
  bom_id :: "ident option"
  type :: "string option"
  comp_color :: "MultiColor option"
  comp_image :: "Image option"
  additional_components :: "AdditionalComponent list"
  comp_notes :: "string option"

record 'pn Connector = "'pn Component" +
  subtype :: "string option"
  pincount :: int
  show_pincount :: bool
  style :: "string option"
  ports_left :: bool
  ports_right :: bool
  pin_objects :: "(ident \<times> Pin) list"
  should_show_pin :: "ident \<Rightarrow> bool"
  loops :: "(ident \<times> ident) list"

record 'pn Cable = "'pn Component" +
  category :: "string option"
  wirecount :: int
  show_wirecount :: bool
  show_wirenumbers :: bool
  gauge_str_with_equiv :: "string option"
  shield :: bool
  length_str :: "string option"
  wire_objects :: "(ident \<times> Wire) list"
  connections :: "Connection list"

datatype 'pn component = IsConnector "'pn Connector" | IsCable "'pn Cable"

definition dict_values :: "('k \<times> 'v) list \<Rightarrow> 'v list" where
  "dict_values d = map snd d"

section \<open>Wire stripes\<close>

text \<open>The five attributes of one band of the stripe.\<close>

definition wire_inner_cell_attribs :: "string \<Rightarrow> int \<Rightarrow> attribs" where
  "wire_inner_cell_attribs bgcolor colspan =
     no_attribs\<lparr>BGCOLOR := Some (if bgcolor \<noteq> '''' then bgcolor else ''#000000''),
       BORDER := Some 0, CELLPADDING := Some 0, COLSPAN := Some colspan, HEIGHT := Some 2\<rparr>"

definition wire_color_list :: "(MultiColor \<Rightarrow> string list) \<Rightarrow> 'a Wire_scheme \<Rightarrow> string list" where
  "wire_color_list html_padded_list wire =
     (case wire_color wire of
        None \<Rightarrow> [''#000000'']
      | Some c \<Rightarrow>
          if truthy_color (Some c) then [''#000000''] @ html_padded_list c @ [''#000000'']
          else [''#000000''])"

definition gv_wire_cell ::
  "(MultiColor \<Rightarrow> string list) \<Rightarrow> 'a Wire_scheme \<Rightarrow> int \<Rightarrow> td" where
  "gv_wire_cell html_padded_list wire colspan =
     (let color_list = wire_color_list html_padded_list wire;
          wire_inner_rows =
            map (\<lambda>bgcolor. Tr (OneCell (Td (CStr '''') (wire_inner_cell_attribs bgcolor colspan)
                                          False False)))
                (rev color_list);
          wire_inner_table =
            Table (Rows wire_inner_rows)
              (no_attribs\<lparr>BORDER := Some 0, CELLBORDER := Some 0, CELLSPACING := Some 0\<rparr>);
          wire_outer_cell_attribs =
            no_attribs\<lparr>BORDER := Some 0, CELLSPACING := Some 0, CELLPADDING := Some 0,
              COLSPAN := Some colspan, HEIGHT := Some (2 * int (length color_list)),
              PORT := Some (''w'' @ str_int (wire_index wire + 1))\<rparr>
      in Td (CTable wire_inner_table) wire_outer_cell_attribs False False)"

section \<open>Pin rows\<close>

definition color_minitable :: "MultiColor option \<Rightarrow> content" where
  "color_minitable color =
     (case color of
        None \<Rightarrow> CStr ''''
      | Some c \<Rightarrow>
          if len_color c = 0 then CStr ''''
          else
            (let cells =
                   map (\<lambda>subcolor.
                          Some (Td (CStr '''')
                                  (no_attribs\<lparr>BGCOLOR := Some (html subcolor), HEIGHT := Some 8,
                                     WIDTH := Some 8, FIXEDSIZE := Some ''true''\<rparr>)
                                  False False))
                       (colors c)
             in CTable (Table (OneRow (Tr (Cells cells)))
                          (no_attribs\<lparr>BORDER := Some 1, CELLBORDER := Some 0,
                             CELLSPACING := Some 0, HEIGHT := Some 8,
                             WIDTH := Some (8 * int (length cells) + 2),
                             FIXEDSIZE := Some ''true''\<rparr>))))"

definition pin_port :: "'a Pin_scheme \<Rightarrow> string \<Rightarrow> string" where
  "pin_port pin side = ''p'' @ str_int (pin_index pin + 1) @ side"

definition gv_pin_row :: "'a Pin_scheme \<Rightarrow> ('pn, 'b) Connector_scheme \<Rightarrow> tr" where
  "gv_pin_row pin connector =
     (let has_pincolors =
            list_ex (\<lambda>p. truthy_color (pin_color p)) (dict_values (pin_objects connector));
          cells =
            [if ports_left connector
             then Some (Td (content_of_ident (pin_id pin))
                          (no_attribs\<lparr>PORT := Some (pin_port pin ''l'')\<rparr>) False False)
             else None,
             Some (Td (content_of_text (pin_label pin)) no_attribs False True),
             if has_pincolors
             then Some (Td (CStr (case pin_color pin of
                                    None \<Rightarrow> ''''
                                  | Some c \<Rightarrow> if truthy_color (Some c) then color_str c else ''''))
                          (no_attribs\<lparr>SIDES := Some ''TBL''\<rparr>) False False)
             else None,
             if has_pincolors
             then Some (Td (color_minitable (pin_color pin))
                          (no_attribs\<lparr>SIDES := Some ''TBR''\<rparr>) False False)
             else None,
             if ports_right connector
             then Some (Td (content_of_ident (pin_id pin))
                          (no_attribs\<lparr>PORT := Some (pin_port pin ''r'')\<rparr>) False False)
             else None]
      in Tr (Cells cells))"

section \<open>Loop edges of a connector\<close>

definition loop_endpoint :: "string \<Rightarrow> ident \<Rightarrow> string \<Rightarrow> string \<Rightarrow> string" where
  "loop_endpoint d p loop_side loop_dir = d @ '':p'' @ str_ident p @ loop_side @ '':'' @ loop_dir"

definition loop_edges_of ::
  "string \<Rightarrow> string \<Rightarrow> string \<Rightarrow> (ident \<times> ident) list \<Rightarrow> (string \<times> string) list" where
  "loop_edges_of d loop_side loop_dir ls =
     map (\<lambda>loop. (loop_endpoint d (fst loop) loop_side loop_dir,
                   loop_endpoint d (snd loop) loop_side loop_dir)) ls"

definition gv_connector_loops ::
  "('pn, 'a) Connector_scheme \<Rightarrow> error + (string \<times> string) list" where
  "gv_connector_loops connector =
     (if ports_left connector then
        Inr (loop_edges_of (designator connector) ''l'' ''w'' (loops connector))
      else if ports_right connector then
        Inr (loop_edges_of (designator connector) ''r'' ''e'' (loops connector))
      else Inl (Exception ''No side for loops''))"

section \<open>The table builder\<close>

text \<open>
  A logical row handed to \<^verbatim>\<open>nested_table\<close> is a list of items or one item; an
  item is a Td or a content still to be wrapped in a Td (\<open>Raw CNone\<close> is Python's
  \<^verbatim>\<open>None\<close>).
\<close>

datatype item = IsTd td | Raw content

datatype line = ItemList "item list" | OneItem item

fun td_of_item :: "item \<Rightarrow> td" where
  "td_of_item (IsTd t) = t"
| "td_of_item (Raw c) = Td c no_attribs False False"

fun make_list_of_cells :: "line \<Rightarrow> td list" where
  "make_list_of_cells (ItemList inp) = map td_of_item inp"
| "make_list_of_cells (OneItem (Raw CNone)) = []"
| "make_list_of_cells (OneItem (IsTd t)) = [t]"
| "make_list_of_cells (OneItem (Raw c)) = [Td c no_attribs False False]"

text \<open>The mark that forces wrapping: a \<^verbatim>\<open>!\<close> in the table's \<^verbatim>\<open>id\<close> attribute.\<close>

definition has_wrap_mark :: "table \<Rightarrow> bool" where
  "has_wrap_mark t = (CHR ''!'' \<in> set (case ID (tbl_attribs t) of None \<Rightarrow> '''' | Some s \<Rightarrow> s))"

definition wrap_cells :: "td list \<Rightarrow> table" where
  "wrap_cells cells =
     Table (OneRow (Tr (Cells (map Some cells))))
       (no_attribs\<lparr>BORDER := Some 0, CELLBORDER := Some 1, CELLPADDING := Some 3,
          CELLSPACING := Some 0\<rparr>)"

text \<open>
  The body of the loop over the cell lists: \<open>None\<close> when the list is skipped
  (\<^verbatim>\<open>continue\<close>), otherwise the table that becomes the content of the new row.
\<close>

definition inner_table_of :: "td list \<Rightarrow> table option" where
  "inner_table_of lst =
     (if length lst = 0 then None
      else
        (let cells = filter (\<lambda>item. td_contents item \<noteq> CNone) lst
         in if length cells = 0 then None
            else
              (case cells of
                 [c] \<Rightarrow>
                   (case td_contents c of
                      CTable t \<Rightarrow> if \<not> has_wrap_mark t then Some t else Some (wrap_cells cells)
                    | _ \<Rightarrow> Some (wrap_cells cells))
               | _ \<Rightarrow> Some (wrap_cells cells))))"

fun nested_rows :: "td list list \<Rightarrow> tr list" where
  "nested_rows [] = []"
| "nested_rows (lst # rest) =
     (case inner_table_of lst of
        None \<Rightarrow> nested_rows rest
      | Some inner_table \<Rightarrow>
          Tr (OneCell (Td (CTable inner_table) no_attribs False False)) # nested_rows rest)"

definition nested_table :: "line list \<Rightarrow> table" where
  "nested_table lines =
     (let cell_lists = map make_list_of_cells lines;
          rows = nested_rows cell_lists;
          rows' = (if length rows = 0
                   then OneRow (Tr (OneCell (Td (CStr '''') no_attribs False False)))
                   else Rows rows)
      in Table rows'
           (no_attribs\<lparr>BORDER := Some 0, CELLSPACING := Some 0, CELLPADDING := Some 0\<rparr>))"

section \<open>Component tables\<close>

text \<open>
  The text utilities (\<^verbatim>\<open>wv_utils\<close>), the part-number formatter (\<^verbatim>\<open>wv_bom\<close>) and
  the padded code list of a colour (\<^verbatim>\<open>wv_colors\<close>) are other modules; they are
  parameters of the renderer.
\<close>

record 'pn helpers =
  remove_links :: "string \<Rightarrow> string"
  html_line_breaks :: "string option \<Rightarrow> string option"
  partnumbers_to_list :: "'pn \<Rightarrow> line"
  color_html_padded_list :: "MultiColor \<Rightarrow> string list"

text \<open>Truth of an optional integer and of an optional text, and the text printed for one.\<close>

fun truthy_int :: "int option \<Rightarrow> bool" where
  "truthy_int None = False"
| "truthy_int (Some i) = (i \<noteq> 0)"

fun truthy_str :: "string option \<Rightarrow> bool" where
  "truthy_str None = False"
| "truthy_str (Some s) = (s \<noteq> '''')"

fun str_opt :: "string option \<Rightarrow> string" where
  "str_opt None = ''None''"
| "str_opt (Some s) = s"

fun join :: "string \<Rightarrow> string list \<Rightarrow> string" where
  "join sep [] = ''''"
| "join sep [x] = x"
| "join sep (x # y # ys) = x @ sep @ join sep (y # ys)"

definition update_attribs :: "(attribs \<Rightarrow> attribs) \<Rightarrow> td \<Rightarrow> td" where
  "update_attribs f c = Td (td_contents c) (f (td_attribs c)) (td_flat c) (td_delete_if_empty c)"

definition colored_cell :: "string \<Rightarrow> SingleColor \<Rightarrow> td" where
  "colored_cell contents bgcolor =
     Td (CStr contents) (no_attribs\<lparr>BGCOLOR := Some (html bgcolor)\<rparr>) False False"

definition bom_bubble :: "ident option \<Rightarrow> content" where
  "bom_bubble bom =
     (case bom of
        None \<Rightarrow> CNone
      | Some b \<Rightarrow>
          CTable (Table (OneRow (Tr (OneCell
                    (Td (content_of_ident b)
                       (no_attribs\<lparr>BORDER := Some 1, CELLPADDING := Some 0,
                          FIXEDSIZE := Some ''true'', STYLE := Some ''rounded'',
                          HEIGHT := Some 20, WIDTH := Some 20\<rparr>)
                       False False))))
                   (no_attribs\<lparr>BORDER := Some 0\<rparr>)))"

definition colorbar_cell :: "MultiColor \<Rightarrow> td" where
  "colorbar_cell color =
     (let cells =
            map (\<lambda>subcolor.
                   Some (Td (CStr '''')
                           (no_attribs\<lparr>BGCOLOR := Some (html subcolor), WIDTH := Some 8\<rparr>)
                           False False))
                (colors color)
      in Td (CTable (Table (OneRow (Tr (Cells cells)))
                       (no_attribs\<lparr>BORDER := Some 0, CELLSPACING := Some 0\<rparr>)))
           (no_attribs\<lparr>CELLSPACING := Some 0, CELLPADDING := Some 0\<rparr>) False False)"

text \<open>
  \<^verbatim>\<open>html_size_attr_dict\<close> returns the attributes to set; the model applies them to the
  attributes its caller updates with them.
\<close>

definition html_size_attr_dict :: "'a Image_scheme \<Rightarrow> attribs \<Rightarrow> attribs" where
  "html_size_attr_dict img a =
     (let a1 = (if truthy_int (img_width img) then a\<lparr>WIDTH := img_width img\<rparr> else a);
          a2 = (if truthy_int (img_height img) then a1\<lparr>HEIGHT := img_height img\<rparr> else a1)
      in if img_fixedsize img then a2\<lparr>FIXEDSIZE := Some ''true''\<rparr> else a2)"

definition image_and_caption_cells ::
  "('pn, 'h) helpers_scheme \<Rightarrow> ('pn, 'a) Component_scheme \<Rightarrow> item \<times> item" where
  "image_and_caption_cells h component =
     (case comp_image component of
        None \<Rightarrow> (Raw CNone, Raw CNone)
      | Some img \<Rightarrow>
          (let image_tag = CImg (no_attribs\<lparr>SCALE := img_scale img, SRC := Some (img_src img)\<rparr>);
               image_cell_inner = Td image_tag no_attribs True False;
               image_cell =
                 (if img_fixedsize img
                  then Td (CTable (Table (OneRow (Tr (OneCell
                                    (update_attribs (html_size_attr_dict img) image_cell_inner))))
                                     (no_attribs\<lparr>BORDER := Some 0, CELLBORDER := Some 0,
                                        CELLSPACING := Some 0, ID := Some ''!''\<rparr>)))
                         no_attribs False False
                  else image_cell_inner);
               image_cell' =
                 update_attribs
                   (\<lambda>a. a\<lparr>BALIGN := Some ''left'', BGCOLOR := Some (html (img_bgcolor img)),
                          SIDES := (if truthy_str (img_caption img) then Some ''TLR'' else None)\<rparr>)
                   image_cell;
               caption_cell =
                 (if truthy_str (img_caption img)
                  then IsTd (Td (CStr (str_opt (html_line_breaks h (img_caption img))))
                               (no_attribs\<lparr>BALIGN := Some ''left'', SIDES := Some ''BLR''\<rparr>)
                               False False)
                  else Raw CNone)
           in (IsTd image_cell', caption_cell)))"

definition gv_additional_component_table :: "('pn, 'a) Component_scheme \<Rightarrow> content" where
  "gv_additional_component_table component =
     (if additional_components component = [] then CNone
      else
        CTable (Table (Rows (map (\<lambda>subitem.
                               Tr (Cells
                                 [Some (Td (bom_bubble (sub_bom_id subitem)) no_attribs False False),
                                  Some (Td (CStr (bom_qty_str subitem)) no_attribs False False),
                                  Some (Td (CStr (if truthy_str (qty_unit subitem)
                                                  then str_opt (qty_unit subitem) else ''x''))
                                          no_attribs False False),
                                  Some (Td (CStr (description subitem)) no_attribs False False)]))
                             (additional_components component)))
                  (no_attribs\<lparr>BORDER := Some 0\<rparr>)))"

definition gv_pin_table :: "('pn, 'a) Connector_scheme \<Rightarrow> table" where
  "gv_pin_table component =
     (let pin_rows =
            map (\<lambda>pin. gv_pin_row pin component)
                (filter (\<lambda>pin. should_show_pin component (pin_id pin))
                        (dict_values (pin_objects component)))
      in Table (Rows pin_rows)
           (no_attribs\<lparr>BORDER := Some 0, CELLBORDER := Some 1, CELLPADDING := Some 3,
              CELLSPACING := Some 0\<rparr>))"

definition spacer_row :: tr where
  "spacer_row = Tr (OneCell (Td (CStr ''&nbsp;'') no_attribs False False))"

text \<open>The two rows the loop of \<^verbatim>\<open>gv_conductor_table\<close> appends for one wire.\<close>

definition wire_rows ::
  "('pn, 'h) helpers_scheme \<Rightarrow> ('pn, 'a) Cable_scheme \<Rightarrow> Wire \<Rightarrow> tr list" where
  "wire_rows h cable wire =
     (let wireinfo =
            (if show_wirenumbers cable \<and> \<not> is_shield wire
             then [Some (str_ident (wire_id wire))] else [])
            @ [Some (case wire_color wire of None \<Rightarrow> ''None'' | Some c \<Rightarrow> color_str c),
               wire_label wire];
          used = filter (\<lambda>conn. via_id conn = wire_id wire) (connections cable);
          ins = concat (map (\<lambda>conn. case from_str conn of None \<Rightarrow> [] | Some s \<Rightarrow> [s]) used);
          outs = concat (map (\<lambda>conn. case to_str conn of None \<Rightarrow> [] | Some s \<Rightarrow> [s]) used);
          cells_above =
            [Some (Td (CStr ('' '' @ join '', '' ins)) (no_attribs\<lparr>ALIGN := Some ''left''\<rparr>)
                     False False),
             if category cable = Some ''bundle''
             then Some (Td (bom_bubble (wire_bom_id wire)) no_attribs False False) else None,
             Some (Td (CStr (join '':''
                          (concat (map (\<lambda>wi. case wi of
                                                None \<Rightarrow> []
                                              | Some s \<Rightarrow> if s \<noteq> '''' then [s] else [])
                                       wireinfo))))
                     no_attribs False False),
             Some (Td (CStr (join '', '' outs @ '' '')) (no_attribs\<lparr>ALIGN := Some ''right''\<rparr>)
                     False False)];
          cells_above' = filter (\<lambda>cell. cell \<noteq> None) cells_above
      in [Tr (Cells cells_above'),
          Tr (OneCell (gv_wire_cell (color_html_padded_list h) wire
                         (int (length cells_above'))))])"

fun conductor_rows ::
  "('pn, 'h) helpers_scheme \<Rightarrow> ('pn, 'a) Cable_scheme \<Rightarrow> Wire list \<Rightarrow> bool \<Rightarrow> tr list" where
  "conductor_rows h cable [] inserted_break_inbetween = []"
| "conductor_rows h cable (wire # rest) inserted_break_inbetween =
     (if is_shield wire \<and> \<not> inserted_break_inbetween
      then spacer_row # wire_rows h cable wire @ conductor_rows h cable rest True
      else wire_rows h cable wire @ conductor_rows h cable rest inserted_break_inbetween)"

definition gv_conductor_table ::
  "('pn, 'h) helpers_scheme \<Rightarrow> ('pn, 'a) Cable_scheme \<Rightarrow> table" where
  "gv_conductor_table h cable =
     Table (Rows ([spacer_row]
                  @ conductor_rows h cable (dict_values (wire_objects cable)) False
                  @ [spacer_row]))
       (no_attribs\<lparr>BORDER := Some 0, CELLBORDER := Some 0, CELLSPACING := Some 0\<rparr>)"

text \<open>The items of the info line that show a component's colour: its name and its bar.\<close>

definition color_items :: "MultiColor option \<Rightarrow> item list" where
  "color_items mc =
     (case mc of
        None \<Rightarrow> [Raw CNone, Raw CNone]
      | Some c \<Rightarrow>
          if truthy_color (Some c) then [Raw (CStr (color_str c)), IsTd (colorbar_cell c)]
          else [Raw CNone, Raw CNone])"

definition connector_line_info ::
  "('pn, 'h) helpers_scheme \<Rightarrow> ('pn, 'a) Connector_scheme \<Rightarrow> item list" where
  "connector_line_info h component =
     [Raw (bom_bubble (bom_id component)),
      Raw (content_of_text (html_line_breaks h (type component))),
      Raw (content_of_text (html_line_breaks h (subtype component))),
      Raw (if show_pincount component then CStr (str_int (pincount component) @ ''-pin'')
           else CNone)]
     @ color_items (comp_color component)"

definition cable_line_info ::
  "('pn, 'h) helpers_scheme \<Rightarrow> ('pn, 'a) Cable_scheme \<Rightarrow> item list" where
  "cable_line_info h component =
     [Raw (if category component \<noteq> Some ''bundle'' then bom_bubble (bom_id component) else CNone),
      Raw (content_of_text (html_line_breaks h (type component))),
      Raw (if show_wirecount component then CStr (str_int (wirecount component) @ ''x'')
           else CNone),
      Raw (content_of_text (gauge_str_with_equiv component)),
      Raw (if shield component then CStr ''+ S'' else CNone),
      Raw (content_of_text (length_str component))]
     @ color_items (comp_color component)"

text \<open>
  The eight logical rows of a component, in the order of the source; the info line and
  the ports line are the ones of its variant.
\<close>

definition component_lines ::
  "('pn, 'h) helpers_scheme \<Rightarrow> ('pn, 'a) Component_scheme \<Rightarrow> item list \<Rightarrow> line \<Rightarrow> line list" where
  "component_lines h component line_info line_ports =
     (let line_name =
            (if show_name component
             then OneItem (IsTd (colored_cell (remove_links h (designator component))
                                   (bgcolor_title component)))
             else OneItem (Raw CNone));
          line_pn = partnumbers_to_list h (partnumbers component);
          line_image = fst (image_and_caption_cells h component);
          line_image_caption = snd (image_and_caption_cells h component);
          line_additional_component_table = gv_additional_component_table component;
          line_notes = ItemList [Raw (content_of_text (html_line_breaks h (comp_notes component)))]
      in [line_name, line_pn, ItemList line_info, line_ports, OneItem line_image,
          OneItem line_image_caption, OneItem (Raw line_additional_component_table),
          line_notes])"

text \<open>
  The ports of a simple connector: the table gets the port p1r and the cell of its first
  row the port p1l.  Modelled from the spec: a Tr is no sequence, so the index
  \<^verbatim>\<open>tbl.contents[0]\<close> fails when the table holds the single placeholder row in place
  of a list of rows.
\<close>

definition assign_simple_ports :: "table \<Rightarrow> error + table" where
  "assign_simple_ports tbl =
     (let attrs = (tbl_attribs tbl)\<lparr>PORT := Some ''p1r''\<rparr> in
      case tbl_contents tbl of
        OneRow r \<Rightarrow> Inl TypeError
      | Rows [] \<Rightarrow> Inl IndexError
      | Rows (r # rest) \<Rightarrow>
          (case tr_contents r of
             OneCell first_cell_in_tbl \<Rightarrow>
               Inr (Table (Rows (Tr (OneCell (update_attribs (\<lambda>a. a\<lparr>PORT := Some ''p1l''\<rparr>)
                                                first_cell_in_tbl)) # rest))
                      attrs)
           | Cells cs \<Rightarrow> Inl AttributeError))"

text \<open>
  \<^verbatim>\<open>gv_node_component\<close> assigns to \<^verbatim>\<open>component.ports_left\<close> before it renders, so
  the model returns the component as the call leaves it together with the table (or the
  exception) of the call.  The rows are rendered from the component after the assignment.
\<close>

definition gv_node_component ::
  "('pn, 'h) helpers_scheme \<Rightarrow> 'pn component \<Rightarrow> 'pn component \<times> (error + table)" where
  "gv_node_component h component =
     (case component of
        IsConnector c0 \<Rightarrow>
          (let c = (if \<not> (ports_left c0 \<or> ports_right c0) then c0\<lparr>ports_left := True\<rparr> else c0);
               is_simple_connector = (style c = Some ''simple'');
               line_ports = (if style c \<noteq> Some ''simple''
                             then OneItem (Raw (CTable (gv_pin_table c)))
                             else OneItem (Raw CNone));
               tbl = nested_table (component_lines h c (connector_line_info h c) line_ports)
           in (IsConnector c, if is_simple_connector then assign_simple_ports tbl else Inr tbl))
      | IsCable c \<Rightarrow>
          (let line_ports = OneItem (Raw (CTable (gv_conductor_table h c)));
               tbl = nested_table (component_lines h c (cable_line_info h c) line_ports)
           in (IsCable c, Inr tbl)))"

section \<open>The tweak engine\<close>

text \<open>
  The tweak input comes from the harness description and is checked at run time, so it
  is a dynamically typed value here: \<^verbatim>\<open>None\<close>, an integer, a text, a list or a dictionary
  (in insertion order, with hashable keys).
\<close>

datatype pykey = KNone | KInt int | KStr string

datatype pyval = PNone | PInt int | PStr string | PList "pyval list" | PDict "(pykey \<times> pyval) list"

datatype pytype = NoneType | IntT | StrT | ListT | DictT

fun type_of :: "pyval \<Rightarrow> pytype" where
  "type_of PNone = NoneType"
| "type_of (PInt _) = IntT"
| "type_of (PStr _) = StrT"
| "type_of (PList _) = ListT"
| "type_of (PDict _) = DictT"

fun val_of_key :: "pykey \<Rightarrow> pyval" where
  "val_of_key KNone = PNone"
| "val_of_key (KInt i) = PInt i"
| "val_of_key (KStr s) = PStr s"

text \<open>What an f-string prints for a key.\<close>

fun str_key :: "pykey \<Rightarrow> string" where
  "str_key KNone = ''None''"
| "str_key (KInt i) = str_int i"
| "str_key (KStr s) = s"

text \<open>
  What \<^verbatim>\<open>apply_dot_tweaks\<close> can raise: the exception of its \<^verbatim>\<open>typecheck\<close>, kept with
  the name and the value it reports, an error of the regular-expression library, and a
  TypeError of the interpreter.
\<close>

datatype tweak_error = UnexpectedType string pyval | ReError string | TweakTypeError

definition typecheck :: "string \<Rightarrow> pyval \<Rightarrow> pytype list \<Rightarrow> tweak_error + unit" where
  "typecheck name v expect =
     (if \<not> (type_of v \<in> set expect) then Inl (UnexpectedType name v) else Inr ())"

text \<open>The validation of \<^verbatim>\<open>tweak.override\<close>: the two nested loops of type checks.\<close>

fun check_attrs :: "pykey \<Rightarrow> (pykey \<times> pyval) list \<Rightarrow> tweak_error + unit" where
  "check_attrs k [] = Inr ()"
| "check_attrs k ((a, v) # rest) =
     (case typecheck (''tweak.override.'' @ str_key k @ ''.'' @ str_key a @ '' key'')
             (val_of_key a) [StrT] of
        Inl e \<Rightarrow> Inl e
      | Inr _ \<Rightarrow>
          (case typecheck (''tweak.override.'' @ str_key k @ ''.'' @ str_key a @ '' value'')
                  v [StrT, NoneType] of
             Inl e \<Rightarrow> Inl e
           | Inr _ \<Rightarrow> check_attrs k rest))"

fun check_items :: "(pykey \<times> pyval) list \<Rightarrow> tweak_error + unit" where
  "check_items [] = Inr ()"
| "check_items ((k, d) # rest) =
     (case typecheck (''tweak.override.'' @ str_key k @ '' key'') (val_of_key k) [StrT] of
        Inl e \<Rightarrow> Inl e
      | Inr _ \<Rightarrow>
          (case typecheck (''tweak.override.'' @ str_key k @ '' value'') d [DictT] of
             Inl e \<Rightarrow> Inl e
           | Inr _ \<Rightarrow>
               (case d of
                  PDict attrs \<Rightarrow>
                    (case check_attrs k attrs of
                       Inl e \<Rightarrow> Inl e
                     | Inr _ \<Rightarrow> check_items rest)
                | _ \<Rightarrow> Inl TweakTypeError)))"

definition check_override :: "pyval \<Rightarrow> tweak_error + unit" where
  "check_override ov =
     (case typecheck ''tweak.override'' ov [DictT] of
        Inl e \<Rightarrow> Inl e
      | Inr _ \<Rightarrow> (case ov of PDict items \<Rightarrow> check_items items | _ \<Rightarrow> Inl TweakTypeError))"

text \<open>
  The regular-expression library is a parameter.  \<open>re_match p dotall s\<close> is
  \<^verbatim>\<open>re.match(p, s, re.S)\<close>: no match, or the groups of the match by number.
  \<open>re_subn p repl s\<close> is \<^verbatim>\<open>re.subn(p, repl, s)\<close>: the new text and the number of
  substitutions, or the library's error for a pattern it refuses;
  \<^verbatim>\<open>re.sub\<close> is its first component.
\<close>

record re_engine =
  re_match :: "string \<Rightarrow> bool \<Rightarrow> string \<Rightarrow> (nat \<Rightarrow> string option) option"
  re_subn :: "string \<Rightarrow> string \<Rightarrow> string \<Rightarrow> tweak_error + (string \<times> nat)"

definition dquote :: char where
  "dquote = CHR 0x22"

definition bslash :: char where
  "bslash = CHR 0x5C"

text \<open>The patterns, character by character as the source writes them.\<close>

definition keyword_pattern :: string where
  "keyword_pattern =
     ''^'' @ [bslash] @ ''t*('' @ [dquote] @ '')?((?(1)[^'' @ [dquote] @ '']|[^ '' @ [dquote]
       @ ''])+)(?(1)'' @ [dquote] @ '') '' @ [bslash] @ ''[.*'' @ [bslash] @ '']$''"

definition assignment_pattern :: "string \<Rightarrow> string" where
  "assignment_pattern attr =
     attr @ ''=('' @ [dquote] @ ''[^'' @ [dquote] @ '']*'' @ [dquote] @ ''|[^] ]*)''"

definition removal_pattern :: "string \<Rightarrow> string" where
  "removal_pattern attr = ''( +)?'' @ assignment_pattern attr @ ''(?(1)| *)''"

definition closing_pattern :: string where
  "closing_pattern = [bslash] @ '']$''"

definition quote_value :: "string \<Rightarrow> string" where
  "quote_value v =
     (if length v = 0 \<or> CHR '' '' \<in> set v
      then [dquote] @ concat (map (\<lambda>c. if c = dquote then [bslash, dquote] else [c]) v) @ [dquote]
      else v)"

definition warning :: "string \<Rightarrow> string" where
  "warning msg = ''Harness.create_graph() warning: '' @ msg"

text \<open>
  The loop over the attribute edits of one matched line.  It returns the edited line,
  the warnings printed so far, and the error that stopped it, if any.  An edit whose
  value is neither a text nor \<^verbatim>\<open>None\<close> cannot reach this loop (the validation has
  refused it); Python would fail on its \<^verbatim>\<open>len\<close> for an integer.
\<close>

fun override_attrs ::
  "'a re_engine_scheme \<Rightarrow> string \<Rightarrow> (pykey \<times> pyval) list \<Rightarrow> string \<Rightarrow> string list
     \<Rightarrow> string \<times> string list \<times> tweak_error option" where
  "override_attrs re keyword [] entry out = (entry, out, None)"
| "override_attrs re keyword ((attr, PNone) # rest) entry out =
     (case re_subn re (removal_pattern (str_key attr)) '''' entry of
        Inl e \<Rightarrow> (entry, out, Some e)
      | Inr (entry', n_subs) \<Rightarrow>
          override_attrs re keyword rest entry'
            (out @ (if n_subs < 1
                    then [warning (str_key attr @ '' not found in '' @ keyword @ ''!'')]
                    else if n_subs > 1
                    then [warning (str_key attr @ '' removed '' @ str_nat n_subs @ '' times in ''
                                   @ keyword @ ''!'')]
                    else [])))"
| "override_attrs re keyword ((attr, PStr v) # rest) entry out =
     (let value = quote_value v in
      case re_subn re (assignment_pattern (str_key attr)) (str_key attr @ ''='' @ value) entry of
        Inl e \<Rightarrow> (entry, out, Some e)
      | Inr (entry', n_subs) \<Rightarrow>
          if n_subs < 1 then
            (case re_subn re closing_pattern ('' '' @ str_key attr @ ''='' @ value @ '']'') entry' of
               Inl e \<Rightarrow> (entry', out, Some e)
             | Inr (entry'', _) \<Rightarrow> override_attrs re keyword rest entry'' out)
          else
            override_attrs re keyword rest entry'
              (out @ (if n_subs > 1
                      then [warning (str_key attr @ '' overridden '' @ str_nat n_subs
                                     @ '' times in '' @ keyword @ ''!'')]
                      else [])))"
| "override_attrs re keyword ((attr, _) # rest) entry out = (entry, out, Some TweakTypeError)"

text \<open>
  One line of the body: a line that is not a text, has no keyword or has a keyword that is
  not requested is left as it is; otherwise it is replaced by the edited line, unless an
  error stops the edits before the assignment \<^verbatim>\<open>dot.body[i] = entry\<close>.
\<close>

definition override_entry ::
  "'a re_engine_scheme \<Rightarrow> (pykey \<times> pyval) list \<Rightarrow> pyval
     \<Rightarrow> pyval \<times> string list \<times> tweak_error option" where
  "override_entry re items entry =
     (case entry of
        PStr e \<Rightarrow>
          (let keyword = (case re_match re keyword_pattern True e of
                            None \<Rightarrow> KNone
                          | Some m \<Rightarrow> (case m 2 of None \<Rightarrow> KNone | Some g \<Rightarrow> KStr g))
           in case map_of items keyword of
                None \<Rightarrow> (entry, [], None)
              | Some (PDict attrs) \<Rightarrow>
                  (case override_attrs re (str_key keyword) attrs e [] of
                     (e', out, None) \<Rightarrow> (PStr e', out, None)
                   | (e', out, Some err) \<Rightarrow> (entry, out, Some err))
              | Some _ \<Rightarrow> (entry, [], Some TweakTypeError))
      | _ \<Rightarrow> (entry, [], None))"

fun override_body ::
  "'a re_engine_scheme \<Rightarrow> (pykey \<times> pyval) list \<Rightarrow> pyval list
     \<Rightarrow> pyval list \<times> string list \<times> tweak_error option" where
  "override_body re items [] = ([], [], None)"
| "override_body re items (entry # rest) =
     (case override_entry re items entry of
        (entry', out, Some err) \<Rightarrow> (entry' # rest, out, Some err)
      | (entry', out, None) \<Rightarrow>
          (case override_body re items rest of
             (rest', out', err) \<Rightarrow> (entry' # rest', out @ out', err)))"

text \<open>The append step: every element is checked before the body is extended.\<close>

fun check_append :: "nat \<Rightarrow> pyval list \<Rightarrow> tweak_error + unit" where
  "check_append i [] = Inr ()"
| "check_append i (element # rest) =
     (case typecheck (''tweak.append['' @ str_nat i @ '']'') element [StrT] of
        Inl e \<Rightarrow> Inl e
      | Inr _ \<Rightarrow> check_append (i + 1) rest)"

definition append_step :: "pyval \<Rightarrow> pyval list \<Rightarrow> pyval list \<times> tweak_error option" where
  "append_step ap body =
     (case ap of
        PNone \<Rightarrow> (body, None)
      | PList elements \<Rightarrow>
          (case check_append 1 elements of
             Inl e \<Rightarrow> (body, Some e)
           | Inr _ \<Rightarrow> (body @ elements, None))
      | _ \<Rightarrow>
          (case typecheck ''tweak.append'' ap [StrT] of
             Inl e \<Rightarrow> (body, Some e)
           | Inr _ \<Rightarrow> (body @ [ap], None)))"

text \<open>
  Modelled from the spec: the tweak object is declared in \<^verbatim>\<open>wv_dataclasses\<close>; the spec
  gives its two optional parts.
\<close>

record Tweak =
  tweak_override :: pyval
  tweak_append :: pyval

text \<open>
  \<^verbatim>\<open>apply_dot_tweaks\<close> works on the list \<^verbatim>\<open>dot.body\<close> in place.  The model takes
  the list and returns the list as the call leaves it, the warnings it printed, and the
  exception it raised, if any.
\<close>

definition apply_dot_tweaks ::
  "'a re_engine_scheme \<Rightarrow> pyval list \<Rightarrow> 'b Tweak_scheme
     \<Rightarrow> pyval list \<times> string list \<times> tweak_error option" where
  "apply_dot_tweaks re body tweak =
     (case (if tweak_override tweak \<noteq> PNone
            then (case check_override (tweak_override tweak) of
                    Inl e \<Rightarrow> (body, [], Some e)
                  | Inr _ \<Rightarrow>
                      (case tweak_override tweak of
                         PDict items \<Rightarrow> override_body re items body
                       | _ \<Rightarrow> (body, [], Some TweakTypeError)))
            else (body, [], None)) of
        (body', out, Some e) \<Rightarrow> (body', out, Some e)
      | (body', out, None) \<Rightarrow>
          (case append_step (tweak_append tweak) body' of
             (body'', err) \<Rightarrow> (body'', out, err)))"

section \<open>Reading a rendered tree\<close>

text \<open>
  What the properties below observe of a rendered tree.  \<open>stripe_bands\<close> lists the
  background colours of the rows of a stripe cell's inner table, first row (the top
  one) first.  \<open>shown_color\<close> is the colour a band gets for a code of the padded list: the
  code itself, or black for the empty code.  \<open>survivors\<close> are the cells of a logical row
  that are left once the row is turned into cells and the cells without content are
  dropped.
\<close>

definition stripe_bands :: "td \<Rightarrow> string option list" where
  "stripe_bands cell =
     (case td_contents cell of
        CTable t \<Rightarrow>
          (case tbl_contents t of
             Rows rs \<Rightarrow>
               map (\<lambda>r. case tr_contents r of
                           OneCell c \<Rightarrow> BGCOLOR (td_attribs c)
                         | Cells _ \<Rightarrow> None) rs
           | OneRow _ \<Rightarrow> [])
      | _ \<Rightarrow> [])"

definition shown_color :: "string \<Rightarrow> string" where
  "shown_color c = (if c = '''' then ''#000000'' else c)"

definition survivors :: "line \<Rightarrow> td list" where
  "survivors ln = filter (\<lambda>item. td_contents item \<noteq> CNone) (make_list_of_cells ln)"

text \<open>
  A malformed override, in the words of the spec: the override is not a mapping, or one
  of its keywords is not a text, or one of its attribute-edit values is not a mapping, or
  one of the attribute names is not a text, or one of the attribute values is neither a
  text nor null.  (No override at all is not malformed.)
\<close>

fun is_text_key :: "pykey \<Rightarrow> bool" where
  "is_text_key (KStr _) = True"
| "is_text_key _ = False"

fun is_text_or_null :: "pyval \<Rightarrow> bool" where
  "is_text_or_null (PStr _) = True"
| "is_text_or_null PNone = True"
| "is_text_or_null _ = False"

definition malformed_edit :: "pykey \<times> pyval \<Rightarrow> bool" where
  "malformed_edit av = (\<not> is_text_key (fst av) \<or> \<not> is_text_or_null (snd av))"

fun malformed_edits :: "pyval \<Rightarrow> bool" where
  "malformed_edits (PDict attrs) = list_ex malformed_edit attrs"
| "malformed_edits _ = True"

definition malformed_item :: "pykey \<times> pyval \<Rightarrow> bool" where
  "malformed_item kd = (\<not> is_text_key (fst kd) \<or> malformed_edits (snd kd))"

fun malformed_override :: "pyval \<Rightarrow> bool" where
  "malformed_override PNone = False"
| "malformed_override (PDict items) = list_ex malformed_item items"
| "malformed_override _ = True"

section \<open>Example inputs\<close>

text \<open>
  Two values for the padded list of codes of a colour: the codes of the sub-colours as
  they are, and the same padded to three codes (one code three times, two codes as
  first, second, first).
\<close>

definition plain_codes :: "MultiColor \<Rightarrow> string list" where
  "plain_codes c = map html (colors c)"

fun pad_to_three :: "string list \<Rightarrow> string list" where
  "pad_to_three [a] = [a, a, a]"
| "pad_to_three [a, b] = [a, b, a]"
| "pad_to_three xs = xs"

definition padded_codes :: "MultiColor \<Rightarrow> string list" where
  "padded_codes c = pad_to_three (map html (colors c))"

definition red_blue :: MultiColor where
  "red_blue = \<lparr>colors = [\<lparr>html = ''#FF0000''\<rparr>, \<lparr>html = ''#0000FF''\<rparr>], color_str = ''RDBU''\<rparr>"

definition red_blue_wire :: Wire where
  "red_blue_wire =
     \<lparr>wire_id = IntId 1, wire_index = 0, wire_label = None, wire_color = Some red_blue,
      wire_bom_id = None, is_shield = False\<rparr>"

definition shield_wire :: Wire where
  "shield_wire =
     \<lparr>wire_id = StrId ''s'', wire_index = 4, wire_label = None, wire_color = None,
      wire_bom_id = None, is_shield = True\<rparr>"

definition pin_B :: Pin where
  "pin_B = \<lparr>pin_id = IntId 2, pin_index = 1, pin_label = Some ''GND'', pin_color = None\<rparr>"

definition white :: SingleColor where
  "white = \<lparr>html = ''#FFFFFF''\<rparr>"

definition blank_connector :: "unit Connector" where
  "blank_connector =
     \<lparr>designator = ''X'', show_name = False, bgcolor_title = white, partnumbers = (),
      bom_id = None, type = None, comp_color = None, comp_image = None,
      additional_components = [], comp_notes = None,
      subtype = None, pincount = 0, show_pincount = False, style = None,
      ports_left = False, ports_right = False, pin_objects = [],
      should_show_pin = (\<lambda>_. True), loops = []\<rparr>"

definition connector_X1 :: "unit Connector" where
  "connector_X1 =
     blank_connector\<lparr>designator := ''X1'', pincount := 3, ports_left := True, ports_right := True,
       pin_objects :=
         [(IntId 1, \<lparr>pin_id = IntId 1, pin_index = 0, pin_label = Some ''VCC'', pin_color = None\<rparr>),
          (IntId 2, pin_B),
          (IntId 3, \<lparr>pin_id = IntId 3, pin_index = 2, pin_label = None, pin_color = None\<rparr>)],
       loops := [(IntId 3, StrId ''A'')]\<rparr>"

definition connector_C :: "unit Connector" where
  "connector_C =
     blank_connector\<lparr>designator := ''C'', ports_left := True, loops := [(IntId 1, IntId 2)]\<rparr>"

definition plain_table :: table where
  "plain_table = Table (OneRow (Tr (OneCell (Td (CStr ''x'') no_attribs False False)))) no_attribs"

definition marked_table :: table where
  "marked_table =
     Table (OneRow (Tr (OneCell (Td (CStr ''x'') no_attribs False False))))
       (no_attribs\<lparr>ID := Some ''!''\<rparr>)"

definition idle_engine :: re_engine where
  "idle_engine = \<lparr>re_match = (\<lambda>_ _ _. None), re_subn = (\<lambda>_ _ s. Inr (s, 0))\<rparr>"

definition two_lines :: "pyval list" where
  "two_lines = [PStr ''X [color=red size=1]'', PStr ''Y [color=red]'']"

definition tweak_with :: "pyval \<Rightarrow> Tweak" where
  "tweak_with ov = \<lparr>tweak_override = ov, tweak_append = PStr ''// appended''\<rparr>"

definition plain_helpers :: "unit helpers" where
  "plain_helpers =
     \<lparr>remove_links = (\<lambda>s. s), html_line_breaks = (\<lambda>s. s),
      partnumbers_to_list = (\<lambda>_. OneItem (Raw CNone)),
      color_html_padded_list = padded_codes\<rparr>"

definition cable_W1 :: "unit Cable" where
  "cable_W1 =
     \<lparr>designator = ''W1'', show_name = True, bgcolor_title = white, partnumbers = (),
      bom_id = None, type = None, comp_color = None, comp_image = None,
      additional_components = [], comp_notes = None,
      category = None, wirecount = 2, show_wirecount = True, show_wirenumbers = True,
      gauge_str_with_equiv = None, shield = True, length_str = None,
      wire_objects = [(IntId 1, red_blue_wire), (StrId ''s'', shield_wire)],
      connections = [\<lparr>from_str = Some ''X1:1'', via_id = IntId 1, to_str = None\<rparr>]\<rparr>"

section \<open>Properties of the arrow markers\<close>

lemma str_int_examples:
  "str_int 1 = ''1''" "str_int 2 = ''2''" "str_int 3 = ''3''" "str_int 5 = ''5''"
  by (simp_all add: str_int_def str_nat.simps digit_char_def)

text \<open>
  C8.  For a non-empty marker, \<open>parse_arrow_str\<close> returns BOTH when the first character
  is \<open><\<close> and the last is \<open>>\<close>, BACK when only the first is \<open><\<close>, FORWARD when only
  the last is \<open>>\<close>, and NONE otherwise; the four markers of the spec give both, back,
  forward and none.
\<close>

theorem parse_arrow_str_table:
  "(inp \<noteq> [] \<longrightarrow>
      parse_arrow_str inp =
        Inr (if hd inp = CHR ''<'' \<and> last inp = CHR ''>'' then BOTH
             else if hd inp = CHR ''<'' then BACK
             else if last inp = CHR ''>'' then FORWARD
             else NONE))
   \<and> parse_arrow_str ''<>'' = Inr BOTH
   \<and> parse_arrow_str ''<-'' = Inr BACK
   \<and> parse_arrow_str ''->'' = Inr FORWARD
   \<and> parse_arrow_str ''-'' = Inr NONE"
  by (cases inp) (simp_all add: parse_arrow_str_def index_first_def index_last_def)

theorem parse_arrow_str_table_witness:
  "''<--'' \<noteq> [] \<and> parse_arrow_str ''<--'' = Inr BACK"
  using parse_arrow_str_table [of "''<--''"] by simp

text \<open>
  C9.  \<open>parse_arrow_str\<close> fails on the empty string (the index of its first character is
  out of range) and returns a direction exactly for the non-empty markers.
\<close>

theorem parse_arrow_str_partial:
  "parse_arrow_str '''' = Inl IndexError
   \<and> ((\<exists>d. parse_arrow_str inp = Inr d) \<longleftrightarrow> inp \<noteq> [])"
  by (cases inp) (simp_all add: parse_arrow_str_def index_first_def index_last_def)

section \<open>Properties of the loop edges\<close>

text \<open>
  C3.  \<open>gv_connector_loops\<close> raises exactly when the connector has neither side
  configured; on a connector with its left side configured every loop pair gives one edge,
  between the left port and west compass point of its two pins, so that the loop [1,2]
  on the left-sided connector C gives the one edge from C:p1l:w to C:p2l:w.
\<close>

theorem gv_connector_loops_raises_iff:
  "((\<exists>e. gv_connector_loops connector = Inl e) \<longleftrightarrow>
      (\<not> ports_left connector \<and> \<not> ports_right connector))
   \<and> (ports_left connector \<longrightarrow>
        gv_connector_loops connector =
          Inr (map (\<lambda>(a, b). (designator connector @ '':p'' @ str_ident a @ ''l:w'',
                               designator connector @ '':p'' @ str_ident b @ ''l:w''))
                   (loops connector)))
   \<and> (ports_left connector \<and> designator connector = ''C''
        \<and> loops connector = [(IntId 1, IntId 2)] \<longrightarrow>
        gv_connector_loops connector = Inr [(''C:p1l:w'', ''C:p2l:w'')])"
  by (auto simp: gv_connector_loops_def loop_edges_of_def loop_endpoint_def str_int_def
        str_nat.simps digit_char_def split_def)

theorem gv_connector_loops_raises_iff_witness:
  "ports_left connector_C \<and> designator connector_C = ''C''
   \<and> loops connector_C = [(IntId 1, IntId 2)]
   \<and> gv_connector_loops connector_C = Inr [(''C:p1l:w'', ''C:p2l:w'')]"
  using gv_connector_loops_raises_iff [of connector_C]
  by (simp add: connector_C_def blank_connector_def str_int_examples)

text \<open>
  C10.  On a connector with both sides configured the loop edges use the left side: every
  edge joins the left port and west compass point of its two pins, so both endpoints end
  in l:w and none ends in r:e.
\<close>

theorem gv_connector_loops_prefers_left:
  "ports_left connector \<and> ports_right connector \<longrightarrow>
     (\<exists>edges. gv_connector_loops connector = Inr edges
        \<and> edges = map (\<lambda>(a, b). (designator connector @ '':p'' @ str_ident a @ ''l:w'',
                                   designator connector @ '':p'' @ str_ident b @ ''l:w''))
                       (loops connector)
        \<and> (\<forall>e \<in> set edges. (\<exists>x. fst e = x @ ''l:w'') \<and> (\<exists>y. snd e = y @ ''l:w'')
              \<and> (\<forall>x. fst e \<noteq> x @ ''r:e'') \<and> (\<forall>y. snd e \<noteq> y @ ''r:e'')))"
  by (auto simp: gv_connector_loops_def loop_edges_of_def loop_endpoint_def split_def)

theorem gv_connector_loops_prefers_left_witness:
  "ports_left connector_X1 \<and> ports_right connector_X1
   \<and> gv_connector_loops connector_X1 = Inr [(''X1:p3l:w'', ''X1:pAl:w'')]"
  using gv_connector_loops_prefers_left [of connector_X1]
  by (simp add: connector_X1_def blank_connector_def str_int_examples)


section \<open>Properties of the wire stripe\<close>

lemma stripe_bands_gv_wire_cell:
  "stripe_bands (gv_wire_cell padded wire colspan) =
     map (\<lambda>c. Some (shown_color c)) (rev (wire_color_list padded wire))"
  by (simp add: stripe_bands_def gv_wire_cell_def Let_def wire_inner_cell_attribs_def
        shown_color_def comp_def no_attribs_def)

lemma wire_color_list_colored:
  "wire_color wire = Some c \<Longrightarrow> colors c \<noteq> [] \<Longrightarrow>
   wire_color_list padded wire = [''#000000''] @ padded c @ [''#000000'']"
  by (simp add: wire_color_list_def len_color_def)

lemma wire_color_list_colorless:
  "\<not> truthy_color (wire_color wire) \<Longrightarrow> wire_color_list padded wire = [''#000000'']"
  by (cases "wire_color wire") (simp_all add: wire_color_list_def)

lemma rev_pair_conv: "rev xs = [a, b] \<longleftrightarrow> xs = [b, a]"
proof
  assume "rev xs = [a, b]"
  then have "rev (rev xs) = rev [a, b]" by (rule arg_cong)
  then show "xs = [b, a]" by simp
next
  assume "xs = [b, a]"
  then show "rev xs = [a, b]" by simp
qed

lemma some_bands_conv:
  "map (\<lambda>code. Some (shown_color code)) ys = [Some A, Some B] \<longleftrightarrow> map shown_color ys = [A, B]"
proof -
  have "map (\<lambda>code. Some (shown_color code)) ys = map Some (map shown_color ys)" by simp
  moreover have "[Some A, Some B] = map Some [A, B]" by simp
  ultimately show ?thesis by (simp only: inj_map_eq_map [OF inj_Some])
qed

text \<open>
  C1 (as amended).  The bands of the stripe of a coloured wire are, from the top row
  down, black, the codes of the colour's padded code list in reverse order, black: the
  renderer walks the colour list in reverse, and a band whose code is empty is black.  So
  a padded list A, B gives the four bands black, B, A, black, and the bands are black,
  A, B, black only for a padded list that shows as B, A.  A wire without colour (a shield)
  has the single band black.  The stripe's outer cell carries the wire port
  \<open>w<index+1>\<close>.  This holds whatever the padded list of a colour is.
\<close>

theorem gv_wire_cell_bands:
  "(wire_color wire = Some c \<and> colors c \<noteq> [] \<longrightarrow>
      stripe_bands (gv_wire_cell padded wire colspan) =
        Some ''#000000'' # map (\<lambda>code. Some (shown_color code)) (rev (padded c))
          @ [Some ''#000000''])
   \<and> (wire_color wire = Some c \<and> colors c \<noteq> [] \<and> padded c = [A, B] \<longrightarrow>
        stripe_bands (gv_wire_cell padded wire colspan) =
          [Some ''#000000'', Some (shown_color B), Some (shown_color A), Some ''#000000''])
   \<and> (wire_color wire = Some c \<and> colors c \<noteq> [] \<longrightarrow>
        (stripe_bands (gv_wire_cell padded wire colspan) =
           [Some ''#000000'', Some A, Some B, Some ''#000000'']
         \<longleftrightarrow> map shown_color (padded c) = [B, A]))
   \<and> (\<not> truthy_color (wire_color wire) \<longrightarrow>
        stripe_bands (gv_wire_cell padded wire colspan) = [Some ''#000000''])
   \<and> PORT (td_attribs (gv_wire_cell padded wire colspan))
       = Some (''w'' @ str_int (wire_index wire + 1))"
proof -
  have general: "stripe_bands (gv_wire_cell padded wire colspan) =
        Some ''#000000'' # map (\<lambda>code. Some (shown_color code)) (rev (padded c))
          @ [Some ''#000000'']"
    if "wire_color wire = Some c \<and> colors c \<noteq> []"
    using that
    by (simp add: stripe_bands_gv_wire_cell wire_color_list_colored shown_color_def rev_map)
  have two: "stripe_bands (gv_wire_cell padded wire colspan) =
          [Some ''#000000'', Some (shown_color B), Some (shown_color A), Some ''#000000'']"
    if h: "wire_color wire = Some c \<and> colors c \<noteq> [] \<and> padded c = [A, B]"
  proof -
    from h have "wire_color wire = Some c \<and> colors c \<noteq> []" by simp
    from general [OF this] h show ?thesis by simp
  qed
  have exact: "stripe_bands (gv_wire_cell padded wire colspan) =
           [Some ''#000000'', Some A, Some B, Some ''#000000'']
         \<longleftrightarrow> map shown_color (padded c) = [B, A]"
    if h: "wire_color wire = Some c \<and> colors c \<noteq> []"
  proof -
    have "stripe_bands (gv_wire_cell padded wire colspan) =
           [Some ''#000000'', Some A, Some B, Some ''#000000'']
          \<longleftrightarrow> map (\<lambda>code. Some (shown_color code)) (rev (padded c)) = [Some A, Some B]"
      by (simp only: general [OF h]) simp
    also have "\<dots> \<longleftrightarrow> map shown_color (rev (padded c)) = [A, B]"
      by (rule some_bands_conv)
    also have "\<dots> \<longleftrightarrow> rev (map shown_color (padded c)) = [A, B]"
      by (simp only: rev_map)
    also have "\<dots> \<longleftrightarrow> map shown_color (padded c) = [B, A]"
      by (rule rev_pair_conv)
    finally show ?thesis .
  qed
  have colorless: "stripe_bands (gv_wire_cell padded wire colspan) = [Some ''#000000'']"
    if "\<not> truthy_color (wire_color wire)"
    using that by (simp add: stripe_bands_gv_wire_cell wire_color_list_colorless shown_color_def)
  have port: "PORT (td_attribs (gv_wire_cell padded wire colspan))
       = Some (''w'' @ str_int (wire_index wire + 1))"
    by (simp add: gv_wire_cell_def Let_def)
  show ?thesis
  proof (intro conjI impI)
  qed (rule general two exact colorless port; assumption)+
qed

theorem gv_wire_cell_bands_witness:
  "wire_color red_blue_wire = Some red_blue \<and> colors red_blue \<noteq> []
   \<and> plain_codes red_blue = [''#FF0000'', ''#0000FF'']
   \<and> stripe_bands (gv_wire_cell plain_codes red_blue_wire 3)
       = [Some ''#000000'', Some ''#0000FF'', Some ''#FF0000'', Some ''#000000'']
   \<and> stripe_bands (gv_wire_cell padded_codes red_blue_wire 3)
       = [Some ''#000000'', Some ''#FF0000'', Some ''#0000FF'', Some ''#FF0000'', Some ''#000000'']
   \<and> PORT (td_attribs (gv_wire_cell plain_codes red_blue_wire 3)) = Some ''w1''
   \<and> \<not> truthy_color (wire_color shield_wire)
   \<and> stripe_bands (gv_wire_cell padded_codes shield_wire 3) = [Some ''#000000'']
   \<and> PORT (td_attribs (gv_wire_cell padded_codes shield_wire 3)) = Some ''w5''"
  using gv_wire_cell_bands [of red_blue_wire red_blue plain_codes 3 "''#FF0000''" "''#0000FF''"]
    gv_wire_cell_bands [of red_blue_wire red_blue padded_codes 3 "''#FF0000''" "''#0000FF''"]
    gv_wire_cell_bands [of shield_wire red_blue padded_codes 3 "''#FF0000''" "''#0000FF''"]
  by (simp add: red_blue_wire_def red_blue_def shield_wire_def shown_color_def plain_codes_def
        padded_codes_def str_int_examples)

text \<open>
  The claim as written (sub-colours A, B give the four bands black, A, B, black from the
  top) fails for a red and blue wire, both when the padded list is the list of the two
  codes (the bands are black, blue, red, black) and when it is padded to three codes (the
  five bands black, red, blue, red, black).
\<close>

theorem gv_wire_cell_bands_counterexample:
  "wire_color red_blue_wire = Some red_blue
   \<and> map html (colors red_blue) = [''#FF0000'', ''#0000FF'']
   \<and> plain_codes red_blue = [''#FF0000'', ''#0000FF'']
   \<and> stripe_bands (gv_wire_cell plain_codes red_blue_wire 3)
       \<noteq> [Some ''#000000'', Some ''#FF0000'', Some ''#0000FF'', Some ''#000000'']
   \<and> padded_codes red_blue = [''#FF0000'', ''#0000FF'', ''#FF0000'']
   \<and> stripe_bands (gv_wire_cell padded_codes red_blue_wire 3)
       \<noteq> [Some ''#000000'', Some ''#FF0000'', Some ''#0000FF'', Some ''#000000'']"
  by (simp add: stripe_bands_gv_wire_cell red_blue_wire_def red_blue_def wire_color_list_def
        plain_codes_def padded_codes_def len_color_def shown_color_def)

section \<open>Properties of the pin rows\<close>

text \<open>
  C4.  The row of a pin with 0-based index i has five entries; the first is the pin-id
  cell with port \<open>p<i+1>l\<close> when the connector has its left side configured and is
  absent otherwise, the last is the pin-id cell with port \<open>p<i+1>r\<close> when the right
  side is configured and is absent otherwise.  On a connector with both sides the pin of
  index 1 gets the ports p2l and p2r.
\<close>

theorem gv_pin_row_ports:
  "\<exists>l m1 m2 m3 r.
     gv_pin_row pin connector = Tr (Cells [l, m1, m2, m3, r])
     \<and> l = (if ports_left connector
            then Some (Td (content_of_ident (pin_id pin))
                         (no_attribs\<lparr>PORT := Some (''p'' @ str_int (pin_index pin + 1) @ ''l'')\<rparr>)
                         False False)
            else None)
     \<and> r = (if ports_right connector
            then Some (Td (content_of_ident (pin_id pin))
                         (no_attribs\<lparr>PORT := Some (''p'' @ str_int (pin_index pin + 1) @ ''r'')\<rparr>)
                         False False)
            else None)
     \<and> (l \<noteq> None \<longleftrightarrow> ports_left connector)
     \<and> (r \<noteq> None \<longleftrightarrow> ports_right connector)
     \<and> (pin_index pin = 1 \<and> ports_left connector \<and> ports_right connector \<longrightarrow>
          map_option (\<lambda>c. PORT (td_attribs c)) l = Some (Some ''p2l'')
          \<and> map_option (\<lambda>c. PORT (td_attribs c)) r = Some (Some ''p2r''))"
  by (simp add: gv_pin_row_def Let_def pin_port_def str_int_examples)

theorem gv_pin_row_ports_witness:
  "pin_index pin_B = 1 \<and> ports_left connector_X1 \<and> ports_right connector_X1
   \<and> length (pin_objects connector_X1) = 3
   \<and> gv_pin_row pin_B connector_X1 =
       Tr (Cells [Some (Td (CInt 2) (no_attribs\<lparr>PORT := Some ''p2l''\<rparr>) False False),
                  Some (Td (CStr ''GND'') no_attribs False True),
                  None, None,
                  Some (Td (CInt 2) (no_attribs\<lparr>PORT := Some ''p2r''\<rparr>) False False)])"
  using gv_pin_row_ports [of pin_B connector_X1]
  by (simp add: gv_pin_row_def Let_def pin_port_def pin_B_def connector_X1_def
        blank_connector_def dict_values_def str_int_examples)

section \<open>Properties of the table builder\<close>

lemma nested_rows_append:
  "nested_rows (xs @ ys) = nested_rows xs @ nested_rows ys"
  by (induction xs) (simp_all split: option.splits)

lemma inner_table_of_direct:
  assumes "filter (\<lambda>item. td_contents item \<noteq> CNone) lst = [c]"
    and "td_contents c = CTable t" and "\<not> has_wrap_mark t"
  shows "inner_table_of lst = Some t"
proof -
  from assms(1) have "lst \<noteq> []" by auto
  with assms show ?thesis by (simp add: inner_table_of_def Let_def)
qed

lemma inner_table_of_wrapped:
  assumes "filter (\<lambda>item. td_contents item \<noteq> CNone) lst \<noteq> []"
    and "\<not> (\<exists>c t. filter (\<lambda>item. td_contents item \<noteq> CNone) lst = [c]
               \<and> td_contents c = CTable t \<and> \<not> has_wrap_mark t)"
  shows "inner_table_of lst = Some (wrap_cells (filter (\<lambda>item. td_contents item \<noteq> CNone) lst))"
proof -
  from assms(1) have "lst \<noteq> []" by auto
  with assms show ?thesis
    by (auto simp add: inner_table_of_def Let_def split: list.splits content.splits)
qed

lemma nested_rows_all_empty:
  "(\<forall>lst \<in> set ls. filter (\<lambda>item. td_contents item \<noteq> CNone) lst = []) \<Longrightarrow> nested_rows ls = []"
  by (induction ls) (simp_all add: inner_table_of_def Let_def)

text \<open>
  C5.  In any list of logical rows, a row that reduces to exactly one surviving cell
  whose content is a Table without the wrap mark contributes that Table itself as the
  content of its row of the result; a row with surviving cells that is not of this kind
  contributes a sub-table with cell borders around its surviving cells.
\<close>

theorem nested_table_row_content:
  "(survivors ln = [c] \<and> td_contents c = CTable t \<and> \<not> has_wrap_mark t \<longrightarrow>
      tbl_contents (nested_table (pre @ ln # post)) =
        Rows (nested_rows (map make_list_of_cells pre)
              @ Tr (OneCell (Td (CTable t) no_attribs False False))
              # nested_rows (map make_list_of_cells post)))
   \<and> (survivors ln \<noteq> []
        \<and> \<not> (\<exists>c t. survivors ln = [c] \<and> td_contents c = CTable t \<and> \<not> has_wrap_mark t) \<longrightarrow>
      tbl_contents (nested_table (pre @ ln # post)) =
        Rows (nested_rows (map make_list_of_cells pre)
              @ Tr (OneCell (Td (CTable
                     (Table (OneRow (Tr (Cells (map Some (survivors ln)))))
                        (no_attribs\<lparr>BORDER := Some 0, CELLBORDER := Some 1,
                           CELLPADDING := Some 3, CELLSPACING := Some 0\<rparr>)))
                    no_attribs False False))
              # nested_rows (map make_list_of_cells post)))"
proof (intro conjI impI)
  assume h: "survivors ln = [c] \<and> td_contents c = CTable t \<and> \<not> has_wrap_mark t"
  then have "inner_table_of (make_list_of_cells ln) = Some t"
    using inner_table_of_direct [of "make_list_of_cells ln" c t] by (simp add: survivors_def)
  then have "nested_rows (map make_list_of_cells (pre @ ln # post)) =
      nested_rows (map make_list_of_cells pre)
        @ Tr (OneCell (Td (CTable t) no_attribs False False))
        # nested_rows (map make_list_of_cells post)"
    by (simp add: nested_rows_append)
  then show "tbl_contents (nested_table (pre @ ln # post)) =
        Rows (nested_rows (map make_list_of_cells pre)
              @ Tr (OneCell (Td (CTable t) no_attribs False False))
              # nested_rows (map make_list_of_cells post))"
    by (simp add: nested_table_def Let_def)
next
  assume h: "survivors ln \<noteq> []
        \<and> \<not> (\<exists>c t. survivors ln = [c] \<and> td_contents c = CTable t \<and> \<not> has_wrap_mark t)"
  then have "inner_table_of (make_list_of_cells ln) = Some (wrap_cells (survivors ln))"
    using inner_table_of_wrapped [of "make_list_of_cells ln"] by (simp add: survivors_def)
  then have "nested_rows (map make_list_of_cells (pre @ ln # post)) =
      nested_rows (map make_list_of_cells pre)
        @ Tr (OneCell (Td (CTable (wrap_cells (survivors ln))) no_attribs False False))
        # nested_rows (map make_list_of_cells post)"
    by (simp add: nested_rows_append)
  then show "tbl_contents (nested_table (pre @ ln # post)) =
        Rows (nested_rows (map make_list_of_cells pre)
              @ Tr (OneCell (Td (CTable
                     (Table (OneRow (Tr (Cells (map Some (survivors ln)))))
                        (no_attribs\<lparr>BORDER := Some 0, CELLBORDER := Some 1,
                           CELLPADDING := Some 3, CELLSPACING := Some 0\<rparr>)))
                    no_attribs False False))
              # nested_rows (map make_list_of_cells post))"
    by (simp add: nested_table_def Let_def wrap_cells_def)
qed

lemma has_wrap_mark_examples:
  "\<not> has_wrap_mark plain_table" "has_wrap_mark marked_table"
  by (simp_all add: has_wrap_mark_def plain_table_def marked_table_def no_attribs_def)

theorem nested_table_row_content_witness:
  "survivors (ItemList [Raw CNone, Raw (CTable plain_table)])
     = [Td (CTable plain_table) no_attribs False False]
   \<and> \<not> has_wrap_mark plain_table
   \<and> nested_table ([OneItem (Raw (CStr ''title''))]
        @ ItemList [Raw CNone, Raw (CTable plain_table)] # [OneItem (Raw CNone)])
     = Table (Rows [Tr (OneCell (Td (CTable
                 (Table (OneRow (Tr (Cells [Some (Td (CStr ''title'') no_attribs False False)])))
                    (no_attribs\<lparr>BORDER := Some 0, CELLBORDER := Some 1,
                       CELLPADDING := Some 3, CELLSPACING := Some 0\<rparr>)))
                 no_attribs False False)),
               Tr (OneCell (Td (CTable plain_table) no_attribs False False))])
         (no_attribs\<lparr>BORDER := Some 0, CELLSPACING := Some 0, CELLPADDING := Some 0\<rparr>)
   \<and> survivors (OneItem (Raw (CTable marked_table)))
       = [Td (CTable marked_table) no_attribs False False]
   \<and> has_wrap_mark marked_table
   \<and> tbl_contents (nested_table ([] @ OneItem (Raw (CTable marked_table)) # []))
     = Rows [Tr (OneCell (Td (CTable
                 (Table (OneRow (Tr (Cells [Some (Td (CTable marked_table) no_attribs False False)])))
                    (no_attribs\<lparr>BORDER := Some 0, CELLBORDER := Some 1,
                       CELLPADDING := Some 3, CELLSPACING := Some 0\<rparr>)))
                 no_attribs False False))]"
  using nested_table_row_content
      [of "ItemList [Raw CNone, Raw (CTable plain_table)]"
          "Td (CTable plain_table) no_attribs False False" plain_table
          "[OneItem (Raw (CStr ''title''))]" "[OneItem (Raw CNone)]"]
    nested_table_row_content
      [of "OneItem (Raw (CTable marked_table))"
          "Td (CTable marked_table) no_attribs False False" marked_table "[]" "[]"]
  by (simp add: survivors_def has_wrap_mark_examples nested_table_def Let_def
        inner_table_of_def wrap_cells_def)

text \<open>
  C6.  When every logical row collapses to no surviving cell the result is the table of
  one row with one empty cell; in no case is the result a table with an empty list of
  rows.
\<close>

theorem nested_table_dummy_row:
  "((\<forall>ln \<in> set lines. survivors ln = []) \<longrightarrow>
      nested_table lines =
        Table (OneRow (Tr (OneCell (Td (CStr '''') no_attribs False False))))
          (no_attribs\<lparr>BORDER := Some 0, CELLSPACING := Some 0, CELLPADDING := Some 0\<rparr>))
   \<and> tbl_contents (nested_table lines) \<noteq> Rows []"
proof (intro conjI impI)
  assume "\<forall>ln \<in> set lines. survivors ln = []"
  then have "nested_rows (map make_list_of_cells lines) = []"
    by (intro nested_rows_all_empty) (simp add: survivors_def)
  then show "nested_table lines =
        Table (OneRow (Tr (OneCell (Td (CStr '''') no_attribs False False))))
          (no_attribs\<lparr>BORDER := Some 0, CELLSPACING := Some 0, CELLPADDING := Some 0\<rparr>)"
    by (simp add: nested_table_def Let_def)
next
  show "tbl_contents (nested_table lines) \<noteq> Rows []"
    by (simp add: nested_table_def Let_def)
qed

theorem nested_table_dummy_row_witness:
  "survivors (OneItem (Raw CNone)) = []
   \<and> survivors (ItemList [Raw CNone, IsTd (Td CNone (no_attribs\<lparr>PORT := Some ''p1l''\<rparr>) False False)]) = []
   \<and> survivors (ItemList []) = []
   \<and> nested_table [OneItem (Raw CNone),
        ItemList [Raw CNone, IsTd (Td CNone (no_attribs\<lparr>PORT := Some ''p1l''\<rparr>) False False)],
        ItemList []]
     = Table (OneRow (Tr (OneCell (Td (CStr '''') no_attribs False False))))
         (no_attribs\<lparr>BORDER := Some 0, CELLSPACING := Some 0, CELLPADDING := Some 0\<rparr>)"
  using nested_table_dummy_row
      [of "[OneItem (Raw CNone),
        ItemList [Raw CNone, IsTd (Td CNone (no_attribs\<lparr>PORT := Some ''p1l''\<rparr>) False False)],
        ItemList []]"]
  by (simp add: survivors_def)

section \<open>Properties of the tweak engine\<close>

lemma typecheck_str_key:
  "typecheck n (val_of_key k) [StrT] = (if is_text_key k then Inr () else Inl (UnexpectedType n (val_of_key k)))"
  by (cases k) (simp_all add: typecheck_def)

lemma typecheck_text_or_null:
  "typecheck n v [StrT, NoneType] = (if is_text_or_null v then Inr () else Inl (UnexpectedType n v))"
  by (cases v) (simp_all add: typecheck_def)

lemma typecheck_dict:
  "typecheck n d [DictT] = (if (\<exists>attrs. d = PDict attrs) then Inr () else Inl (UnexpectedType n d))"
  by (cases d) (simp_all add: typecheck_def)

lemma check_attrs_malformed:
  "list_ex malformed_edit attrs \<Longrightarrow> \<exists>e. check_attrs k attrs = Inl e"
proof (induction attrs)
  case Nil
  then show ?case by simp
next
  case (Cons av attrs)
  obtain a v where av: "av = (a, v)" by (cases av)
  show ?case
  proof (cases "malformed_edit av")
    case True
    with av show ?thesis
      by (auto simp: malformed_edit_def typecheck_str_key typecheck_text_or_null)
  next
    case False
    with Cons have "\<exists>e. check_attrs k attrs = Inl e" by simp
    with av show ?thesis
      by (auto simp: typecheck_str_key typecheck_text_or_null)
  qed
qed

lemma check_attrs_wellformed:
  "\<not> list_ex malformed_edit attrs \<Longrightarrow> check_attrs k attrs = Inr ()"
  by (induction attrs) (auto simp: malformed_edit_def typecheck_str_key typecheck_text_or_null)

lemma check_items_malformed:
  "list_ex malformed_item items \<Longrightarrow> \<exists>e. check_items items = Inl e"
proof (induction items)
  case Nil
  then show ?case by simp
next
  case (Cons kd items)
  obtain k d where kd: "kd = (k, d)" by (cases kd)
  show ?case
  proof (cases "malformed_item kd")
    case True
    show ?thesis
    proof (cases d)
      case (PDict attrs)
      with True kd show ?thesis
        using check_attrs_malformed [of attrs k]
        by (auto simp: malformed_item_def typecheck_str_key typecheck_dict)
    qed (use kd in \<open>auto simp: typecheck_str_key typecheck_dict\<close>)
  next
    case False
    with Cons have "\<exists>e. check_items items = Inl e" by simp
    with kd show ?thesis
      by (auto simp: typecheck_str_key typecheck_dict split: sum.splits pyval.splits)
  qed
qed

lemma check_items_wellformed:
  "\<not> list_ex malformed_item items \<Longrightarrow> check_items items = Inr ()"
proof (induction items)
  case Nil
  then show ?case by simp
next
  case (Cons kd items)
  obtain k d where kd: "kd = (k, d)" by (cases kd)
  from Cons.prems kd obtain attrs where d: "d = PDict attrs"
    by (cases d) (auto simp: malformed_item_def)
  with Cons kd show ?case
    by (auto simp: malformed_item_def typecheck_str_key typecheck_dict check_attrs_wellformed)
qed

lemma check_override_malformed:
  "malformed_override ov \<Longrightarrow> \<exists>e. check_override ov = Inl e"
  using check_items_malformed by (cases ov) (auto simp: check_override_def typecheck_dict)

lemma check_override_wellformed:
  "ov \<noteq> PNone \<Longrightarrow> \<not> malformed_override ov \<Longrightarrow> check_override ov = Inr ()"
  using check_items_wellformed by (cases ov) (auto simp: check_override_def typecheck_dict)

text \<open>
  C7.  When the override of a tweak is malformed, \<open>apply_dot_tweaks\<close> raises, and at
  that moment the lines are the ones it was given: no line has been modified, nothing has
  been appended and no warning has been printed.  This holds for every body, every
  regular-expression engine and every append part.
\<close>

theorem apply_dot_tweaks_malformed_override:
  "malformed_override (tweak_override tweak) \<longrightarrow>
     (\<exists>e. apply_dot_tweaks re body tweak = (body, [], Some e))"
proof
  assume m: "malformed_override (tweak_override tweak)"
  then have "tweak_override tweak \<noteq> PNone" by auto
  moreover from m obtain e where "check_override (tweak_override tweak) = Inl e"
    using check_override_malformed by blast
  ultimately show "\<exists>e. apply_dot_tweaks re body tweak = (body, [], Some e)"
    by (simp add: apply_dot_tweaks_def)
qed

theorem apply_dot_tweaks_malformed_override_witness:
  "malformed_override (PDict [(KInt 5, PDict [])])
   \<and> apply_dot_tweaks idle_engine two_lines (tweak_with (PDict [(KInt 5, PDict [])]))
       = (two_lines, [], Some (UnexpectedType ''tweak.override.5 key'' (PInt 5)))
   \<and> malformed_override (PDict [(KStr ''X'', PStr ''red'')])
   \<and> apply_dot_tweaks idle_engine two_lines (tweak_with (PDict [(KStr ''X'', PStr ''red'')]))
       = (two_lines, [], Some (UnexpectedType ''tweak.override.X value'' (PStr ''red'')))
   \<and> malformed_override (PDict [(KStr ''X'', PDict [(KNone, PStr ''a'')])])
   \<and> apply_dot_tweaks idle_engine two_lines
         (tweak_with (PDict [(KStr ''X'', PDict [(KNone, PStr ''a'')])]))
       = (two_lines, [], Some (UnexpectedType ''tweak.override.X.None key'' PNone))
   \<and> malformed_override
         (PDict [(KStr ''Y'', PDict []), (KStr ''X'', PDict [(KStr ''size'', PNone), (KStr ''color'', PInt 5)])])
   \<and> apply_dot_tweaks idle_engine two_lines
         (tweak_with (PDict [(KStr ''Y'', PDict []),
                             (KStr ''X'', PDict [(KStr ''size'', PNone), (KStr ''color'', PInt 5)])]))
       = (two_lines, [], Some (UnexpectedType ''tweak.override.X.color value'' (PInt 5)))"
  using apply_dot_tweaks_malformed_override
      [of "tweak_with (PDict [(KInt 5, PDict [])])" idle_engine two_lines]
    apply_dot_tweaks_malformed_override
      [of "tweak_with (PDict [(KStr ''X'', PStr ''red'')])" idle_engine two_lines]
    apply_dot_tweaks_malformed_override
      [of "tweak_with (PDict [(KStr ''X'', PDict [(KNone, PStr ''a'')])])" idle_engine two_lines]
    apply_dot_tweaks_malformed_override
      [of "tweak_with (PDict [(KStr ''Y'', PDict []),
                             (KStr ''X'', PDict [(KStr ''size'', PNone), (KStr ''color'', PInt 5)])])"
          idle_engine two_lines]
  by (simp add: tweak_with_def malformed_item_def malformed_edit_def apply_dot_tweaks_def
        check_override_def typecheck_def str_int_examples)

section \<open>Properties of the component renderer\<close>

text \<open>
  C2 (as amended).  Rendering a component leaves the component as it was, with one
  exception: a connector that has neither side configured has \<open>ports_left\<close> set by the
  call, and nothing else of it changes.  A cable, and a connector with a side configured,
  are returned unchanged.
\<close>

theorem gv_node_component_frame:
  "(\<forall>c. component = IsCable c \<longrightarrow> fst (gv_node_component h component) = component)
   \<and> (\<forall>c. component = IsConnector c \<and> (ports_left c \<or> ports_right c) \<longrightarrow>
          fst (gv_node_component h component) = component)
   \<and> (\<forall>c. component = IsConnector c \<and> \<not> ports_left c \<and> \<not> ports_right c \<longrightarrow>
          fst (gv_node_component h component) = IsConnector (c\<lparr>ports_left := True\<rparr>))"
  by (cases component) (auto simp: gv_node_component_def Let_def)

theorem gv_node_component_frame_witness:
  "fst (gv_node_component plain_helpers (IsCable cable_W1)) = IsCable cable_W1
   \<and> ports_left connector_X1
   \<and> fst (gv_node_component plain_helpers (IsConnector connector_X1)) = IsConnector connector_X1
   \<and> \<not> ports_left blank_connector \<and> \<not> ports_right blank_connector
   \<and> fst (gv_node_component plain_helpers (IsConnector blank_connector))
       = IsConnector (blank_connector\<lparr>ports_left := True\<rparr>)"
  using gv_node_component_frame [of "IsCable cable_W1" plain_helpers]
    gv_node_component_frame [of "IsConnector connector_X1" plain_helpers]
    gv_node_component_frame [of "IsConnector blank_connector" plain_helpers]
  by (simp add: connector_X1_def blank_connector_def)

text \<open>
  The claim as written (no field of the component changes) fails for a connector with
  neither side configured: the call returns its table, and \<open>ports_left\<close>, false before
  the call, is true after it.
\<close>

theorem gv_node_component_mutates_counterexample:
  "snd (gv_node_component plain_helpers (IsConnector blank_connector))
     = Inr (Table (Rows [Tr (OneCell (Td (CTable
                      (Table (Rows [])
                         (no_attribs\<lparr>BORDER := Some 0, CELLBORDER := Some 1,
                            CELLPADDING := Some 3, CELLSPACING := Some 0\<rparr>)))
                      no_attribs False False))])
              (no_attribs\<lparr>BORDER := Some 0, CELLSPACING := Some 0, CELLPADDING := Some 0\<rparr>))
   \<and> ports_left blank_connector = False
   \<and> fst (gv_node_component plain_helpers (IsConnector blank_connector))
       = IsConnector (blank_connector\<lparr>ports_left := True\<rparr>)
   \<and> fst (gv_node_component plain_helpers (IsConnector blank_connector))
       \<noteq> IsConnector blank_connector"
  by (simp add: gv_node_component_def Let_def blank_connector_def plain_helpers_def
        component_lines_def connector_line_info_def color_items_def bom_bubble_def
        image_and_caption_cells_def gv_additional_component_table_def gv_pin_table_def
        dict_values_def nested_table_def inner_table_of_def has_wrap_mark_def no_attribs_def)

end
